theory Spec2Isabelle
  imports Main "HOL-Library.Multiset"
begin

section \<open>Data model\<close>

text \<open>
  A completion date is the string \<^verbatim>\<open>"YYYY-MM-DD"\<close> of a calendar day. The model
  identifies the string with the number of its day (days counted from a fixed day 0):
  the fields are zero-padded and of fixed width, so the order of the strings, which
  \<^verbatim>\<open>.sort()\<close> uses, is the order of the days.
\<close>

type_synonym isoDate = int

text \<open>\<^verbatim>\<open>type HabitLog\<close>: one completion entry.\<close>

record HabitLog =
  id_l :: string
  habit_id :: string
  user_id :: string
  completed_date :: isoDate

text \<open>
  What the hook reads of the clock and of the local time zone:
  \<^verbatim>\<open>new Date().toISOString().split("T")[0]\<close> is the calendar day in UTC
  (\<open>utcDate\<close>); \<^verbatim>\<open>new Date()\<close> followed by \<^verbatim>\<open>setHours(0, 0, 0, 0)\<close> is the
  local midnight that starts the local calendar day (\<open>localDate\<close>); and
  \<^verbatim>\<open>new Date(d + "T00:00:00").getTime()\<close> is the time stamp, in milliseconds, of the
  local midnight that starts day \<open>d\<close> (\<open>localMidnight\<close>, a function of the zone:
  where the zone changes its clocks, two consecutive local midnights are 23 or 25 hours
  apart).
\<close>

record clock =
  utcDate :: isoDate
  localDate :: isoDate
  localMidnight :: "isoDate \<Rightarrow> int"

section \<open>Streak calculator\<close>

definition msPerDay :: int where
  "msPerDay = 1000 * 60 * 60 * 24"

text \<open>
  The \<^verbatim>\<open>for\<close> loop of \<^verbatim>\<open>calculateStreak\<close>: \<open>midnight\<close> is the zone's
  \<^verbatim>\<open>new Date(... + "T00:00:00").getTime()\<close>, \<open>checkDate\<close> is
  \<^verbatim>\<open>checkDate.getTime()\<close>, the list is what is left of \<^verbatim>\<open>habitLogs\<close> from index
  \<open>i\<close> on, and \<^verbatim>\<open>break\<close> returns the counter. \<^verbatim>\<open>Math.floor\<close> of the quotient is
  \<open>div\<close> on the integers.
\<close>

fun streakLoop :: "(isoDate \<Rightarrow> int) \<Rightarrow> int \<Rightarrow> isoDate list \<Rightarrow> nat \<Rightarrow> nat" where
  "streakLoop midnight checkDate [] streak = streak"
| "streakLoop midnight checkDate (d # rest) streak =
     (let logDate = midnight d;
          daysDiff = (checkDate - logDate) div msPerDay
      in if daysDiff = int streak then streakLoop midnight checkDate rest (streak + 1)
         else streak)"

definition calculateStreak :: "clock \<Rightarrow> string \<Rightarrow> HabitLog list \<Rightarrow> nat" where
  "calculateStreak clk habitId logs =
     (let habitLogs =
            rev (sort (map completed_date (filter (\<lambda>log. habit_id log = habitId) logs)))
      in if length habitLogs = 0 then 0
         else streakLoop (localMidnight clk) (localMidnight clk (localDate clk)) habitLogs 0)"

text \<open>
  No clock change lies between the days \<open>ds\<close> and today: the local midnight of each
  of them and today's are a whole number of days apart, as many as the calendar says.
\<close>

definition wholeDays :: "clock \<Rightarrow> isoDate list \<Rightarrow> bool" where
  "wholeDays clk ds =
     list_all (\<lambda>d. localMidnight clk (localDate clk) - localMidnight clk d
                      = (localDate clk - d) * msPerDay) ds"

section \<open>Remote calls\<close>

text \<open>
  Every call to the remote store resolves to \<^verbatim>\<open>{ data, error }\<close>: either an error, of
  which the hook reads \<^verbatim>\<open>error.code\<close>, or the data; for an insert followed by
  \<^verbatim>\<open>.select()\<close> the hook reads the row \<^verbatim>\<open>data[0]\<close>.
\<close>

datatype 'r reply = Failed string | Returned 'r

text \<open>What the hook shows: \<^verbatim>\<open>alert(msg)\<close> and \<^verbatim>\<open>console.error(msg, error)\<close>.\<close>

datatype notice = Alert string | ConsoleError string

text \<open>
  A handler is an \<^verbatim>\<open>async\<close> function with at most one request to the store. It
  either returns without a request (\<open>Done\<close>, with the state and what was shown), or
  suspends at the \<^verbatim>\<open>await\<close> (\<open>Await\<close>): the state as it stands while the
  request is in flight, the request, and what the handler does with the reply. Calls are
  taken one at a time: no other handler runs between a request and its reply.
\<close>

datatype ('s, 'q, 'r) call =
    Done 's "notice list"
  | Await 's 'q "'r reply \<Rightarrow> 's \<times> notice list"

fun issued :: "('s, 'q, 'r) call \<Rightarrow> 'q option" where
  "issued (Done s ns) = None"
| "issued (Await s q k) = Some q"

fun pending :: "('s, 'q, 'r) call \<Rightarrow> 's option" where
  "pending (Done s ns) = None"
| "pending (Await s q k) = Some s"

fun resume :: "('s, 'q, 'r) call \<Rightarrow> 'r reply \<Rightarrow> 's \<times> notice list" where
  "resume (Done s ns) r = (s, ns)"
| "resume (Await s q k) r = k r"

text \<open>
  The row sent to \<^verbatim>\<open>habit_logs\<close> by an insert, and the three \<^verbatim>\<open>.eq\<close> filters
  of a delete: \<^verbatim>\<open>habit_id\<close>, \<^verbatim>\<open>user_id\<close> (the hook's
  \<^verbatim>\<open>currentUserId: string | null\<close>) and \<^verbatim>\<open>completed_date\<close>.
\<close>

record logQuery =
  q_habit_id :: string
  q_user_id :: "string option"
  q_completed_date :: isoDate

text \<open>The form's fields, as \<^verbatim>\<open>handleCreate\<close> receives them.\<close>

record formData =
  f_title :: string
  f_description :: string
  f_frequency :: string

section \<open>The hook with cached logs and computed streaks\<close>

text \<open>\<^verbatim>\<open>type Habit\<close>; \<^verbatim>\<open>streak?: number\<close> is the optional computed field.\<close>

record Habit =
  id_h :: string
  title :: string
  description :: "string option"
  frequency :: string
  created_at :: string
  user_id_h :: string
  streak :: "nat option"

text \<open>The four \<^verbatim>\<open>useState\<close> cells of \<^verbatim>\<open>useHabits\<close>.\<close>

record hook =
  habits :: "Habit list"
  habitLogs :: "HabitLog list"
  allLogs :: "HabitLog list"
  loading :: bool

definition recalculateStreaks :: "clock \<Rightarrow> HabitLog list \<Rightarrow> hook \<Rightarrow> hook" where
  "recalculateStreaks clk updatedLogs s =
     s\<lparr>habits :=
         map (\<lambda>habit. habit\<lparr>streak := Some (calculateStreak clk (id_h habit) updatedLogs)\<rparr>)
           (habits s)\<rparr>"

definition isCompletedToday :: "hook \<Rightarrow> string \<Rightarrow> bool" where
  "isCompletedToday s habitId = list_ex (\<lambda>log. habit_id log = habitId) (habitLogs s)"

definition handleMarkComplete ::
  "clock \<Rightarrow> string option \<Rightarrow> string \<Rightarrow> hook \<Rightarrow> (hook, logQuery, HabitLog) call" where
  "handleMarkComplete clk currentUserId habitId s =
     (let today = utcDate clk
      in Await s
           \<lparr>q_habit_id = habitId, q_user_id = currentUserId, q_completed_date = today\<rparr>
           (\<lambda>r. case r of
                Failed code \<Rightarrow>
                  (if code = ''23505''
                   then (s, [Alert ''You've already completed this habit today!''])
                   else (s, [ConsoleError ''Error logging habit:'',
                             Alert ''Failed to log habit completion'']))
              | Returned newLog \<Rightarrow>
                  (let updatedAllLogs = newLog # allLogs s
                   in (recalculateStreaks clk updatedAllLogs
                         (s\<lparr>habitLogs := habitLogs s @ [newLog],
                            allLogs := updatedAllLogs\<rparr>),
                       []))))"

definition handleUnmarkComplete ::
  "clock \<Rightarrow> string option \<Rightarrow> string \<Rightarrow> hook \<Rightarrow> (hook, logQuery, unit) call" where
  "handleUnmarkComplete clk currentUserId habitId s =
     (let today = utcDate clk
      in Await s
           \<lparr>q_habit_id = habitId, q_user_id = currentUserId, q_completed_date = today\<rparr>
           (\<lambda>r. case r of
                Failed code \<Rightarrow> (s, [ConsoleError ''Error removing log:''])
              | Returned u \<Rightarrow>
                  (let updatedAllLogs =
                         filter (\<lambda>log. \<not> (habit_id log = habitId \<and> completed_date log = today))
                           (allLogs s)
                   in (recalculateStreaks clk updatedAllLogs
                         (s\<lparr>habitLogs := filter (\<lambda>log. habit_id log \<noteq> habitId) (habitLogs s),
                            allLogs := updatedAllLogs\<rparr>),
                       []))))"

text \<open>
  \<open>user\<close> is what \<^verbatim>\<open>supabase.auth.getUser()\<close> resolved to (the id of the signed-in
  user, if any); the request is the row \<^verbatim>\<open>{ ...formData, user_id: user.id }\<close>.
\<close>

definition handleCreate ::
  "string option \<Rightarrow> formData \<Rightarrow> hook \<Rightarrow> (hook, formData \<times> string, Habit) call" where
  "handleCreate user fd s =
     (case user of
        None \<Rightarrow> Done s [Alert ''You must be logged in to create a habit'']
      | Some uid \<Rightarrow>
          Await s (fd, uid)
            (\<lambda>r. case r of
                 Failed code \<Rightarrow>
                   (s, [ConsoleError ''Error creating habit:'', Alert ''Failed to create habit''])
               | Returned row \<Rightarrow>
                   (let newHabit = row\<lparr>streak := Some 0\<rparr>
                    in (s\<lparr>habits := newHabit # habits s\<rparr>, []))))"

text \<open>\<open>confirmed\<close> is the answer to the \<^verbatim>\<open>confirm(...)\<close> dialog; the request is the id.\<close>

definition handleDelete :: "bool \<Rightarrow> string \<Rightarrow> hook \<Rightarrow> (hook, string, unit) call" where
  "handleDelete confirmed ident s =
     (if \<not> confirmed then Done s []
      else Await s ident
             (\<lambda>r. case r of
                  Failed code \<Rightarrow>
                    (s, [ConsoleError ''Error deleting habit:'', Alert ''Failed to delete habit''])
                | Returned u \<Rightarrow>
                    (s\<lparr>habits := filter (\<lambda>h. id_h h \<noteq> ident) (habits s),
                       habitLogs := filter (\<lambda>log. habit_id log \<noteq> ident) (habitLogs s),
                       allLogs := filter (\<lambda>log. habit_id log \<noteq> ident) (allLogs s)\<rparr>,
                     [])))"

text \<open>
  The streak the hook exposes for a habit id: the \<^verbatim>\<open>streak\<close> field of each cached
  habit with that id (one entry for a habit that is in the list, none for one that is not).
\<close>

definition streakOf :: "hook \<Rightarrow> string \<Rightarrow> nat option list" where
  "streakOf s habitId = map streak (filter (\<lambda>h. id_h h = habitId) (habits s))"

section \<open>The hook without streaks (\<^verbatim>\<open>hooks/useHabits.ts\<close>)\<close>

text \<open>
  This variant keeps the habits and today's logs only. Its functions carry the source's
  names with the suffix \<open>_lite\<close>.
\<close>

record hook_lite =
  habits_lite :: "Habit list"
  habitLogs_lite :: "HabitLog list"
  loading_lite :: bool

definition isCompletedToday_lite :: "hook_lite \<Rightarrow> string \<Rightarrow> bool" where
  "isCompletedToday_lite s habitId =
     list_ex (\<lambda>log. habit_id log = habitId) (habitLogs_lite s)"

definition handleMarkComplete_lite ::
  "clock \<Rightarrow> string option \<Rightarrow> string \<Rightarrow> hook_lite \<Rightarrow> (hook_lite, logQuery, HabitLog) call" where
  "handleMarkComplete_lite clk currentUserId habitId s =
     (let today = utcDate clk
      in Await s
           \<lparr>q_habit_id = habitId, q_user_id = currentUserId, q_completed_date = today\<rparr>
           (\<lambda>r. case r of
                Failed code \<Rightarrow>
                  (if code = ''23505''
                   then (s, [Alert ''You've already completed this habit today!''])
                   else (s, [ConsoleError ''Error logging habit:'',
                             Alert ''Failed to log habit completion'']))
              | Returned row \<Rightarrow>
                  (s\<lparr>habitLogs_lite := habitLogs_lite s @ [row]\<rparr>, [])))"

definition handleUnmarkComplete_lite ::
  "clock \<Rightarrow> string option \<Rightarrow> string \<Rightarrow> hook_lite \<Rightarrow> (hook_lite, logQuery, unit) call" where
  "handleUnmarkComplete_lite clk currentUserId habitId s =
     (let today = utcDate clk
      in Await s
           \<lparr>q_habit_id = habitId, q_user_id = currentUserId, q_completed_date = today\<rparr>
           (\<lambda>r. case r of
                Failed code \<Rightarrow> (s, [ConsoleError ''Error removing log:''])
              | Returned u \<Rightarrow>
                  (s\<lparr>habitLogs_lite :=
                       filter (\<lambda>log. habit_id log \<noteq> habitId) (habitLogs_lite s)\<rparr>,
                   [])))"

definition handleCreate_lite ::
  "string option \<Rightarrow> formData \<Rightarrow> hook_lite \<Rightarrow> (hook_lite, formData \<times> string, Habit) call" where
  "handleCreate_lite user fd s =
     (case user of
        None \<Rightarrow> Done s [Alert ''You must be logged in to create a habit'']
      | Some uid \<Rightarrow>
          Await s (fd, uid)
            (\<lambda>r. case r of
                 Failed code \<Rightarrow>
                   (s, [ConsoleError ''Error creating habit:'', Alert ''Failed to create habit''])
               | Returned row \<Rightarrow> (s\<lparr>habits_lite := row # habits_lite s\<rparr>, [])))"

definition handleDelete_lite :: "bool \<Rightarrow> string \<Rightarrow> hook_lite \<Rightarrow> (hook_lite, string, unit) call" where
  "handleDelete_lite confirmed ident s =
     (if \<not> confirmed then Done s []
      else Await s ident
             (\<lambda>r. case r of
                  Failed code \<Rightarrow>
                    (s, [ConsoleError ''Error deleting habit:'', Alert ''Failed to delete habit''])
                | Returned u \<Rightarrow>
                    (s\<lparr>habits_lite := filter (\<lambda>h. id_h h \<noteq> ident) (habits_lite s)\<rparr>, [])))"

section \<open>The remote store\<close>





section \<open>Example states\<close>

text \<open>
  The concrete inputs of the examples below. Today is day 10, in UTC and locally, in a
  zone that never changes its clocks (every local midnight is a whole day after the one
  before); the user \<open>u1\<close> has one habit, \<open>h1\<close>.
\<close>

definition plainMidnight :: "isoDate \<Rightarrow> int" where
  "plainMidnight d = d * msPerDay"

definition exClock :: clock where
  "exClock = \<lparr>utcDate = 10, localDate = 10, localMidnight = plainMidnight\<rparr>"

text \<open>
  New York in March 2025, the days numbered by the day of the month. The clocks go
  forward at 2 a.m. on the 9th: up to the 9th the local midnight is at 05:00 UTC, from
  the 10th on it is at 04:00 UTC. Today is the 10th.
\<close>

definition newYorkMidnight :: "isoDate \<Rightarrow> int" where
  "newYorkMidnight d = d * msPerDay + (if d \<le> 9 then 5 else 4) * (1000 * 60 * 60)"

definition nyClock :: clock where
  "nyClock = \<lparr>utcDate = 10, localDate = 10, localMidnight = newYorkMidnight\<rparr>"

definition exHabit :: Habit where
  "exHabit = \<lparr>id_h = ''h1'', title = ''Morning Run'', description = None,
              frequency = ''daily'', created_at = ''2025-12-01T08:00:00'',
              user_id_h = ''u1'', streak = Some 0\<rparr>"

definition exLog :: "string \<Rightarrow> isoDate \<Rightarrow> HabitLog" where
  "exLog ident date = \<lparr>id_l = ident, habit_id = ''h1'', user_id = ''u1'', completed_date = date\<rparr>"

text \<open>The habit with no history, as loaded.\<close>

definition freshState :: hook where
  "freshState = \<lparr>habits = [exHabit], habitLogs = [], allLogs = [], loading = False\<rparr>"

text \<open>
  The state a successful \<^verbatim>\<open>handleMarkComplete\<close> on day 9 leaves (lemma
  \<open>rolloverState_reached\<close>), still held on day 10 by a page that stayed open.
\<close>

definition rolloverState :: hook where
  "rolloverState = \<lparr>habits = [exHabit\<lparr>streak := Some 1\<rparr>], habitLogs = [exLog ''l9'' 9],
                    allLogs = [exLog ''l9'' 9], loading = False\<rparr>"

text \<open>The variant without streaks, with the habit completed today.\<close>

definition completedState_lite :: hook_lite where
  "completedState_lite =
     \<lparr>habits_lite = [exHabit], habitLogs_lite = [exLog ''l10'' 10], loading_lite = False\<rparr>"


section \<open>Properties of the streak calculator\<close>

lemmas ex_defs = exClock_def nyClock_def exHabit_def exLog_def freshState_def rolloverState_def
  completedState_lite_def

lemma msPerDay_nonzero: "msPerDay \<noteq> 0"
  by (simp add: msPerDay_def)

lemma daysDiff_whole:
  assumes "a - b = k * msPerDay"
  shows "(a - b) div msPerDay = k"
  using assms msPerDay_nonzero by simp

lemma daysDiff_plainMidnight: "(plainMidnight a - plainMidnight b) div msPerDay = a - b"
proof -
  have "plainMidnight a - plainMidnight b = (a - b) * msPerDay"
    unfolding plainMidnight_def by (simp only: left_diff_distrib)
  then show ?thesis by (rule daysDiff_whole)
qed

lemma wholeDays_plainMidnight:
  "wholeDays \<lparr>utcDate = u, localDate = t, localMidnight = plainMidnight\<rparr> ds"
  by (simp add: wholeDays_def list_all_iff plainMidnight_def left_diff_distrib)

lemma wholeDays_daysDiff:
  assumes "wholeDays clk ds" and "d \<in> set ds"
  shows "(localMidnight clk (localDate clk) - localMidnight clk d) div msPerDay = localDate clk - d"
proof -
  from assms have "localMidnight clk (localDate clk) - localMidnight clk d
                     = (localDate clk - d) * msPerDay"
    by (simp add: wholeDays_def list_all_iff)
  then show ?thesis by (rule daysDiff_whole)
qed

text \<open>
  On the dates \<open>t - s\<close>, \<open>t - (s + 1)\<close>, ..., each a whole number of days before
  \<open>t\<close>, the loop counts every one of them.
\<close>

lemma streakLoop_run:
  assumes "\<forall>k < s + n. (m t - m (t - int k)) div msPerDay = int k"
  shows "streakLoop m (m t) (map (\<lambda>k. t - int k) [s..<s + n]) s = s + n"
  using assms
proof (induction n arbitrary: s)
  case 0
  then show ?case by simp
next
  case (Suc n)
  have l: "[s..<s + Suc n] = s # [Suc s..<Suc s + n]"
    by (simp add: upt_conv_Cons)
  have h: "(m t - m (t - int s)) div msPerDay = int s"
    using Suc.prems by simp
  have "streakLoop m (m t) (map (\<lambda>k. t - int k) [Suc s..<Suc s + n]) (Suc s) = Suc s + n"
    using Suc.prems by (intro Suc.IH) simp
  then show ?case unfolding l using h by simp
qed

text \<open>The test for the empty list is subsumed by the loop, which returns 0 on it.\<close>

lemma calculateStreak_loop:
  "calculateStreak clk habitId logs =
     streakLoop (localMidnight clk) (localMidnight clk (localDate clk))
       (rev (sort (map completed_date (filter (\<lambda>log. habit_id log = habitId) logs)))) 0"
  by (simp add: calculateStreak_def Let_def)

lemma sort_mset_cong: "mset xs = mset ys \<Longrightarrow> sort xs = sort (ys :: int list)"
  by (metis properties_for_sort sorted_sort mset_sort)

lemma sorted_rev_run: "sorted (rev (map (\<lambda>k. t - int k) [0..<n]))"
  by (simp add: sorted_wrt_rev sorted_map sorted_wrt_map flip: rev_map)

lemma sort_run:
  assumes "mset ds = mset (map (\<lambda>k. t - int k) [0..<n])"
  shows "rev (sort ds) = map (\<lambda>k. t - int k) [0..<n]"
proof -
  have "sort ds = rev (map (\<lambda>k. t - int k) [0..<n])"
    using assms sorted_rev_run[of t n] by (intro properties_for_sort) simp_all
  then show ?thesis by simp
qed

text \<open>
  Away from a clock change the calculator does count a run: when the completion dates
  of a habit are exactly the \<open>n\<close> consecutive days that end today (each day once, the
  logs in any order and among the logs of other habits) and no clock change lies
  between them and today, \<open>calculateStreak\<close> returns \<open>n\<close>; and for a habit with no
  log at all it returns 0 in every zone.
\<close>

lemma streak_unbroken_run_whole_days:
  "(mset (map completed_date (filter (\<lambda>log. habit_id log = habitId) logs))
      = mset (map (\<lambda>k. localDate clk - int k) [0..<n])
    \<and> wholeDays clk (map completed_date (filter (\<lambda>log. habit_id log = habitId) logs))
    \<longrightarrow> calculateStreak clk habitId logs = n)
   \<and> (filter (\<lambda>log. habit_id log = habitId) logs = []
    \<longrightarrow> calculateStreak clk habitId logs = 0)"
proof (intro conjI impI)
  let ?ds = "map completed_date (filter (\<lambda>log. habit_id log = habitId) logs)"
  assume a: "mset ?ds = mset (map (\<lambda>k. localDate clk - int k) [0..<n]) \<and> wholeDays clk ?ds"
  then have r: "rev (sort ?ds) = map (\<lambda>k. localDate clk - int k) [0..<n]"
    by (intro sort_run) simp
  from a have "set ?ds = set (map (\<lambda>k. localDate clk - int k) [0..<n])"
    by (intro mset_eq_setD) simp
  then have "\<forall>k < 0 + n. localDate clk - int k \<in> set ?ds"
    by simp
  with a have "\<forall>k < 0 + n.
      (localMidnight clk (localDate clk) - localMidnight clk (localDate clk - int k))
        div msPerDay = int k"
    using wholeDays_daysDiff[of clk ?ds] by fastforce
  then have "streakLoop (localMidnight clk) (localMidnight clk (localDate clk))
               (map (\<lambda>k. localDate clk - int k) [0..<0 + n]) 0 = 0 + n"
    by (rule streakLoop_run)
  with r show "calculateStreak clk habitId logs = n"
    by (simp add: calculateStreak_loop)
next
  assume "filter (\<lambda>log. habit_id log = habitId) logs = []"
  then show "calculateStreak clk habitId logs = 0"
    by (simp add: calculateStreak_def)
qed

text \<open>
  Claim C4 fails on the code across a clock change. In New York on 2025-03-10 the habit
  has logs for the 10th, the 9th and the 8th, an unbroken run of three days ending
  today. The midnights of the 10th and the 9th are 23 hours apart, the floor of 23/24 is
  0 where the counter is 1, and the walk breaks: the streak is 1, not 3.
\<close>

theorem streak_run_across_clock_change:
  "calculateStreak nyClock ''h1'' [exLog ''a'' 10, exLog ''b'' 9, exLog ''c'' 8] = 1
   \<and> calculateStreak nyClock ''h1'' [exLog ''a'' 10, exLog ''b'' 9, exLog ''c'' 8] \<noteq> 3"
  by (simp add: calculateStreak_loop ex_defs newYorkMidnight_def msPerDay_def)

text \<open>
  Claim C1, as stated, fails: today is day 10, no clock change is near, and habit
  \<open>h1\<close> was completed on days 9 and 8 (yesterday and the day before) but not today.
  The newest date comes first, it is one day ago while the counter is 0, so the loop
  breaks at once: the streak is 0, not 2.
\<close>

theorem streak_missed_today_counterexample:
  "calculateStreak exClock ''h1'' [exLog ''a'' 9, exLog ''b'' 8] = 0
   \<and> calculateStreak exClock ''h1'' [exLog ''a'' 9, exLog ''b'' 8] \<noteq> 2"
  by (simp add: calculateStreak_loop ex_defs daysDiff_plainMidnight)

text \<open>
  Claim C1, amended. The walk starts at today: for every habit with no log dated today,
  when no clock change lies between its logged days and today, \<open>calculateStreak\<close>
  returns 0, whatever run of days ends at its most recent completion.
\<close>

theorem streak_zero_without_today:
  assumes "localDate clk
             \<notin> set (map completed_date (filter (\<lambda>log. habit_id log = habitId) logs))"
      and "wholeDays clk (map completed_date (filter (\<lambda>log. habit_id log = habitId) logs))"
  shows "calculateStreak clk habitId logs = 0"
proof (cases "rev (sort (map completed_date (filter (\<lambda>log. habit_id log = habitId) logs)))")
  case Nil
  then show ?thesis by (simp add: calculateStreak_loop)
next
  case (Cons d rest)
  then have "d \<in> set (rev (sort (map completed_date
                                 (filter (\<lambda>log. habit_id log = habitId) logs))))"
    by simp
  then have d: "d \<in> set (map completed_date (filter (\<lambda>log. habit_id log = habitId) logs))"
    by (simp only: set_rev set_sort)
  with assms(1) have "localDate clk \<noteq> d" by blast
  moreover have "(localMidnight clk (localDate clk) - localMidnight clk d) div msPerDay
                   = localDate clk - d"
    using assms(2) d by (rule wholeDays_daysDiff)
  ultimately show ?thesis using Cons by (simp add: calculateStreak_loop)
qed

text \<open>Witness for the amended C1, at the input of the counterexample.\<close>

theorem streak_zero_without_today_witness:
  "localDate exClock
     \<notin> set (map completed_date (filter (\<lambda>log. habit_id log = ''h1'')
               [exLog ''a'' 9, exLog ''b'' 8]))
   \<and> wholeDays exClock (map completed_date (filter (\<lambda>log. habit_id log = ''h1'')
               [exLog ''a'' 9, exLog ''b'' 8]))
   \<and> calculateStreak exClock ''h1'' [exLog ''a'' 9, exLog ''b'' 8] = 0"
proof -
  have a: "localDate exClock
     \<notin> set (map completed_date (filter (\<lambda>log. habit_id log = ''h1'')
               [exLog ''a'' 9, exLog ''b'' 8]))"
    by (simp add: ex_defs)
  have b: "wholeDays exClock (map completed_date (filter (\<lambda>log. habit_id log = ''h1'')
               [exLog ''a'' 9, exLog ''b'' 8]))"
    unfolding exClock_def by (rule wholeDays_plainMidnight)
  show ?thesis
    using streak_zero_without_today[OF a b] a b by simp
qed

text \<open>
  Why the amended C1 asks for no clock change: in New York on 2025-03-10, with logs for
  the 9th and the 8th and none for today, the midnights are 23 and 47 hours before
  today's, the floors are 0 and 1, and the streak is 2.
\<close>

lemma streak_missed_today_clock_change:
  "calculateStreak nyClock ''h1'' [exLog ''a'' 9, exLog ''b'' 8] = 2"
  by (simp add: calculateStreak_loop ex_defs newYorkMidnight_def msPerDay_def)

text \<open>
  Claim C10. \<open>calculateStreak\<close> gives the same value on any two lists of logs that are
  permutations of each other: it sorts the dates of the habit before it walks them.
\<close>

theorem streak_permutation_invariant:
  assumes "mset logs = mset logs'"
  shows "calculateStreak clk habitId logs = calculateStreak clk habitId logs'"
proof -
  have "mset (map completed_date (filter (\<lambda>log. habit_id log = habitId) logs))
      = mset (map completed_date (filter (\<lambda>log. habit_id log = habitId) logs'))"
    using assms by simp
  then have "sort (map completed_date (filter (\<lambda>log. habit_id log = habitId) logs))
      = sort (map completed_date (filter (\<lambda>log. habit_id log = habitId) logs'))"
    by (rule sort_mset_cong)
  then show ?thesis
    by (simp only: calculateStreak_loop)
qed

text \<open>Witness for C10: two logs in both orders; the streak is 2 either way.\<close>

theorem streak_permutation_invariant_witness:
  "mset [\<lparr>id_l = ''a'', habit_id = ''h1'', user_id = ''u1'', completed_date = 9\<rparr>,
         \<lparr>id_l = ''b'', habit_id = ''h1'', user_id = ''u1'', completed_date = 10\<rparr>]
   = mset [\<lparr>id_l = ''b'', habit_id = ''h1'', user_id = ''u1'', completed_date = 10\<rparr>,
           \<lparr>id_l = ''a'', habit_id = ''h1'', user_id = ''u1'', completed_date = 9\<rparr>]
   \<and> calculateStreak exClock ''h1''
        [\<lparr>id_l = ''a'', habit_id = ''h1'', user_id = ''u1'', completed_date = 9\<rparr>,
         \<lparr>id_l = ''b'', habit_id = ''h1'', user_id = ''u1'', completed_date = 10\<rparr>]
     = calculateStreak exClock ''h1''
        [\<lparr>id_l = ''b'', habit_id = ''h1'', user_id = ''u1'', completed_date = 10\<rparr>,
         \<lparr>id_l = ''a'', habit_id = ''h1'', user_id = ''u1'', completed_date = 9\<rparr>]"
  using streak_permutation_invariant[of
     "[\<lparr>id_l = ''a'', habit_id = ''h1'', user_id = ''u1'', completed_date = 9\<rparr>,
       \<lparr>id_l = ''b'', habit_id = ''h1'', user_id = ''u1'', completed_date = 10\<rparr>]"
     "[\<lparr>id_l = ''b'', habit_id = ''h1'', user_id = ''u1'', completed_date = 10\<rparr>,
       \<lparr>id_l = ''a'', habit_id = ''h1'', user_id = ''u1'', completed_date = 9\<rparr>]"
     exClock "''h1''"]
  by simp

section \<open>Properties of the handlers\<close>

subsection \<open>Streaks after a recalculation\<close>

lemma streak_of_recalculated:
  "map streak (filter (\<lambda>h. id_h h = habitId) (map (\<lambda>h. h\<lparr>streak := Some (f (id_h h))\<rparr>) hs))
     = map (\<lambda>h. Some (f habitId)) (map streak (filter (\<lambda>h. id_h h = habitId) hs))"
  by (induction hs) simp_all

lemma streakOf_recalculateStreaks:
  "streakOf (recalculateStreaks clk logs s) habitId
     = map (\<lambda>h. Some (calculateStreak clk habitId logs)) (streakOf s habitId)"
  using streak_of_recalculated[of habitId "\<lambda>i. calculateStreak clk i logs" "habits s"]
  by (simp add: streakOf_def recalculateStreaks_def)

lemma streakOf_logs_update:
  "streakOf (s\<lparr>habitLogs := a, allLogs := b\<rparr>) habitId = streakOf s habitId"
  by (simp add: streakOf_def)

lemma calculateStreak_single_today:
  assumes "filter (\<lambda>log. habit_id log = habitId) logs = [newLog]"
      and "completed_date newLog = localDate clk"
  shows "calculateStreak clk habitId logs = 1"
  using assms by (simp add: calculateStreak_loop)

subsection \<open>Marking a habit complete\<close>

text \<open>
  Claim C2, as stated, fails: the handler changes no state before its
  \<^verbatim>\<open>await\<close>. For the habit with no history, while the insert is in flight the
  state is the one the call started from: the habit is not completed today and its
  streak is 0.
\<close>

theorem markComplete_not_optimistic_counterexample:
  "pending (handleMarkComplete exClock (Some ''u1'') ''h1'' freshState) = Some freshState
   \<and> \<not> isCompletedToday freshState ''h1''
   \<and> streakOf freshState ''h1'' = [Some 0]"
  by (simp add: handleMarkComplete_def Let_def ex_defs streakOf_def isCompletedToday_def)

text \<open>
  Claim C2, amended. \<open>handleMarkComplete\<close> first issues the insert for today (the UTC
  day) and leaves the cache as it is while the insert is in flight. When the insert
  succeeds, the returned record is appended to today's logs and put in front of the
  cached logs, and the streaks are recomputed from them. In particular, for a habit with
  no history, when the store returns the record it was sent and today is the same day
  in UTC and locally, the habit is then completed today and its streak is 1.
\<close>

theorem markComplete_updates_after_reply:
  "pending (handleMarkComplete clk uid habitId s) = Some s
   \<and> issued (handleMarkComplete clk uid habitId s)
       = Some \<lparr>q_habit_id = habitId, q_user_id = uid, q_completed_date = utcDate clk\<rparr>
   \<and> habitLogs (fst (resume (handleMarkComplete clk uid habitId s) (Returned newLog)))
       = habitLogs s @ [newLog]
   \<and> allLogs (fst (resume (handleMarkComplete clk uid habitId s) (Returned newLog)))
       = newLog # allLogs s
   \<and> (habit_id newLog = habitId \<and> completed_date newLog = utcDate clk
        \<and> utcDate clk = localDate clk
        \<and> filter (\<lambda>log. habit_id log = habitId) (allLogs s) = []
      \<longrightarrow> isCompletedToday
            (fst (resume (handleMarkComplete clk uid habitId s) (Returned newLog))) habitId
          \<and> streakOf (fst (resume (handleMarkComplete clk uid habitId s) (Returned newLog)))
              habitId
            = map (\<lambda>h. Some 1) (streakOf s habitId))"
proof -
  let ?s' = "fst (resume (handleMarkComplete clk uid habitId s) (Returned newLog))"
  have s': "?s' = recalculateStreaks clk (newLog # allLogs s)
                    (s\<lparr>habitLogs := habitLogs s @ [newLog], allLogs := newLog # allLogs s\<rparr>)"
    by (simp add: handleMarkComplete_def Let_def)
  have p: "pending (handleMarkComplete clk uid habitId s) = Some s"
    by (simp add: handleMarkComplete_def Let_def)
  have i: "issued (handleMarkComplete clk uid habitId s)
       = Some \<lparr>q_habit_id = habitId, q_user_id = uid, q_completed_date = utcDate clk\<rparr>"
    by (simp add: handleMarkComplete_def Let_def)
  have hl: "habitLogs ?s' = habitLogs s @ [newLog]"
    by (simp add: s' recalculateStreaks_def)
  have al: "allLogs ?s' = newLog # allLogs s"
    by (simp add: s' recalculateStreaks_def)
  have v: "isCompletedToday ?s' habitId
           \<and> streakOf ?s' habitId = map (\<lambda>h. Some 1) (streakOf s habitId)"
    if h: "habit_id newLog = habitId" "completed_date newLog = utcDate clk"
          "utcDate clk = localDate clk"
          "filter (\<lambda>log. habit_id log = habitId) (allLogs s) = []"
  proof -
    have "calculateStreak clk habitId (newLog # allLogs s) = 1"
      using h by (intro calculateStreak_single_today[of _ _ newLog]) simp_all
    then have "streakOf ?s' habitId = map (\<lambda>h. Some 1) (streakOf s habitId)"
      by (simp add: s' streakOf_recalculateStreaks streakOf_logs_update)
    moreover have "isCompletedToday ?s' habitId"
      using h(1) by (simp add: isCompletedToday_def hl)
    ultimately show ?thesis by simp
  qed
  show ?thesis using p i hl al v by blast
qed

text \<open>
  Witness for the amended C2: the habit with no history; the store returns the record
  for day 10.
\<close>

theorem markComplete_updates_after_reply_witness:
  "habit_id (exLog ''n1'' 10) = ''h1''
   \<and> completed_date (exLog ''n1'' 10) = utcDate exClock
   \<and> utcDate exClock = localDate exClock
   \<and> filter (\<lambda>log. habit_id log = ''h1'') (allLogs freshState) = []
   \<and> pending (handleMarkComplete exClock (Some ''u1'') ''h1'' freshState) = Some freshState
   \<and> isCompletedToday
        (fst (resume (handleMarkComplete exClock (Some ''u1'') ''h1'' freshState)
                (Returned (exLog ''n1'' 10)))) ''h1''
   \<and> streakOf
        (fst (resume (handleMarkComplete exClock (Some ''u1'') ''h1'' freshState)
                (Returned (exLog ''n1'' 10)))) ''h1'' = [Some 1]"
proof -
  have "streakOf freshState ''h1'' = [Some 0]"
    by (simp add: ex_defs streakOf_def)
  then show ?thesis
    using markComplete_updates_after_reply[of exClock "Some ''u1''" "''h1''" freshState
        "exLog ''n1'' 10"]
    by (simp add: ex_defs)
qed

text \<open>
  Why the amended C2 asks for the same day in UTC and locally: the record is dated by
  the UTC day and the streak is counted from the local day. With UTC one day ahead, the
  new record is dated tomorrow and the streak stays 0.
\<close>

lemma markComplete_utc_ahead:
  "streakOf (fst (resume (handleMarkComplete
                     \<lparr>utcDate = 11, localDate = 10, localMidnight = plainMidnight\<rparr>
                     (Some ''u1'') ''h1''
                     freshState) (Returned (exLog ''n1'' 11)))) ''h1'' = [Some 0]"
  by (simp add: handleMarkComplete_def Let_def recalculateStreaks_def ex_defs streakOf_def
      calculateStreak_loop daysDiff_plainMidnight)

subsection \<open>Marking twice\<close>










text \<open>
  Claim C5. When the insert fails with any code other than 23505, the cache after the
  call is the cache before it (it was not touched while the insert was in flight
  either), and the call shows ``Failed to log habit completion''. The same holds for the
  variant without streaks.
\<close>

theorem markComplete_failure_keeps_cache:
  assumes "code \<noteq> ''23505''"
  shows "pending (handleMarkComplete clk uid habitId s) = Some s
     \<and> resume (handleMarkComplete clk uid habitId s) (Failed code)
       = (s, [ConsoleError ''Error logging habit:'', Alert ''Failed to log habit completion''])
     \<and> pending (handleMarkComplete_lite clk uid habitId t) = Some t
     \<and> resume (handleMarkComplete_lite clk uid habitId t) (Failed code)
       = (t, [ConsoleError ''Error logging habit:'', Alert ''Failed to log habit completion''])"
  using assms by (simp add: handleMarkComplete_def handleMarkComplete_lite_def Let_def)

text \<open>Witness for C5: the store fails with code 500.\<close>

theorem markComplete_failure_keeps_cache_witness:
  "''500'' \<noteq> ''23505''
   \<and> resume (handleMarkComplete exClock (Some ''u1'') ''h1'' freshState) (Failed ''500'')
       = (freshState,
          [ConsoleError ''Error logging habit:'', Alert ''Failed to log habit completion''])
   \<and> resume (handleMarkComplete_lite exClock (Some ''u1'') ''h1'' completedState_lite)
         (Failed ''500'')
       = (completedState_lite,
          [ConsoleError ''Error logging habit:'', Alert ''Failed to log habit completion''])"
  using markComplete_failure_keeps_cache[of "''500''" exClock "Some ''u1''" "''h1''" freshState
      completedState_lite]
  by simp

subsection \<open>Marking and unmarking\<close>

text \<open>
  Claim C9. After a successful \<open>handleUnmarkComplete\<close> the habit is not completed
  today: today's logs are filtered on the habit id alone, whatever date a log carries.
  The same holds for the variant without streaks.
\<close>

theorem unmark_clears_today:
  "\<not> isCompletedToday (fst (resume (handleUnmarkComplete clk uid habitId s) (Returned ())))
       habitId
   \<and> habitLogs (fst (resume (handleUnmarkComplete clk uid habitId s) (Returned ())))
       = filter (\<lambda>log. habit_id log \<noteq> habitId) (habitLogs s)
   \<and> \<not> isCompletedToday_lite
         (fst (resume (handleUnmarkComplete_lite clk uid habitId t) (Returned ()))) habitId
   \<and> habitLogs_lite (fst (resume (handleUnmarkComplete_lite clk uid habitId t) (Returned ())))
       = filter (\<lambda>log. habit_id log \<noteq> habitId) (habitLogs_lite t)"
  by (simp add: handleUnmarkComplete_def handleUnmarkComplete_lite_def Let_def
      recalculateStreaks_def isCompletedToday_def isCompletedToday_lite_def list_ex_iff)

text \<open>
  Witness for C9: on day 10 the only log of today's logs is dated day 9, and the unmark
  removes it all the same; in the variant without streaks the log is dated today.
\<close>

theorem unmark_clears_today_witness:
  "isCompletedToday rolloverState ''h1''
   \<and> \<not> isCompletedToday
         (fst (resume (handleUnmarkComplete exClock (Some ''u1'') ''h1'' rolloverState)
                 (Returned ()))) ''h1''
   \<and> isCompletedToday_lite completedState_lite ''h1''
   \<and> \<not> isCompletedToday_lite
         (fst (resume (handleUnmarkComplete_lite exClock (Some ''u1'') ''h1'' completedState_lite)
                 (Returned ()))) ''h1''"
  using unmark_clears_today[of exClock "Some ''u1''" "''h1''" rolloverState completedState_lite]
  by (simp add: isCompletedToday_def isCompletedToday_lite_def ex_defs)

text \<open>The state of the next example is one the hook reaches by itself.\<close>

lemma rolloverState_reached:
  "fst (resume (handleMarkComplete
                  \<lparr>utcDate = 9, localDate = 9, localMidnight = plainMidnight\<rparr>
                  (Some ''u1'') ''h1'' freshState)
          (Returned (exLog ''l9'' 9))) = rolloverState"
  by (simp add: handleMarkComplete_def Let_def recalculateStreaks_def ex_defs
      calculateStreak_loop daysDiff_plainMidnight)




subsection \<open>Creating a habit\<close>

text \<open>
  Claim C7, as stated, fails: \<open>handleCreate\<close> validates neither field. With an empty
  title and the frequency \<open>yearly\<close>, which is none of daily, weekly and monthly, the
  insert is issued all the same, and when the store accepts it the habit enters the
  cache.
\<close>

theorem create_without_validation_counterexample:
  "issued (handleCreate (Some ''u1'')
            \<lparr>f_title = '''', f_description = '''', f_frequency = ''yearly''\<rparr> freshState)
     = Some (\<lparr>f_title = '''', f_description = '''', f_frequency = ''yearly''\<rparr>, ''u1'')
   \<and> map title (habits (fst (resume (handleCreate (Some ''u1'')
            \<lparr>f_title = '''', f_description = '''', f_frequency = ''yearly''\<rparr> freshState)
          (Returned \<lparr>id_h = ''h2'', title = '''', description = Some '''',
                     frequency = ''yearly'', created_at = ''2025-12-10T09:00:00'',
                     user_id_h = ''u1'', streak = None\<rparr>))))
     = ['''', ''Morning Run'']"
  by (simp add: handleCreate_def ex_defs)

text \<open>
  Claim C7, amended. The one check \<open>handleCreate\<close> makes before the insert is that a
  user is signed in: without one it shows ``You must be logged in to create a habit'',
  issues no request and leaves the cache as it is. With a user it issues the insert with
  the fields as given, whatever the title and the frequency; the cache is untouched
  while the insert is in flight and when it fails (``Failed to create habit''), and on
  success the returned habit is put in front of the list with streak 0. The variant
  without streaks makes the same check and issues the same request.
\<close>

theorem create_checks_session_only:
  "handleCreate None fd s = Done s [Alert ''You must be logged in to create a habit'']
   \<and> issued (handleCreate (Some uid) fd s) = Some (fd, uid)
   \<and> pending (handleCreate (Some uid) fd s) = Some s
   \<and> resume (handleCreate (Some uid) fd s) (Failed code)
       = (s, [ConsoleError ''Error creating habit:'', Alert ''Failed to create habit''])
   \<and> resume (handleCreate (Some uid) fd s) (Returned row)
       = (s\<lparr>habits := row\<lparr>streak := Some 0\<rparr> # habits s\<rparr>, [])
   \<and> handleCreate_lite None fd t = Done t [Alert ''You must be logged in to create a habit'']
   \<and> issued (handleCreate_lite (Some uid) fd t) = Some (fd, uid)
   \<and> pending (handleCreate_lite (Some uid) fd t) = Some t"
  by (simp add: handleCreate_def handleCreate_lite_def)

text \<open>Witness for the amended C7: a habit ``Read'', without and with a signed-in user.\<close>

theorem create_checks_session_only_witness:
  "handleCreate None \<lparr>f_title = ''Read'', f_description = '''', f_frequency = ''daily''\<rparr>
       freshState
     = Done freshState [Alert ''You must be logged in to create a habit'']
   \<and> issued (handleCreate (Some ''u1'')
        \<lparr>f_title = ''Read'', f_description = '''', f_frequency = ''daily''\<rparr> freshState)
     = Some (\<lparr>f_title = ''Read'', f_description = '''', f_frequency = ''daily''\<rparr>, ''u1'')"
  using create_checks_session_only[of
      "\<lparr>f_title = ''Read'', f_description = '''', f_frequency = ''daily''\<rparr>" freshState "''u1''"]
  by simp

subsection \<open>Deleting a habit\<close>

text \<open>
  The hook with cached logs removes the habit, its logs in both caches and with them its
  streak; afterwards the habit is not completed today.
\<close>

lemma handleDelete_purges:
  "filter (\<lambda>h. id_h h = ident)
      (habits (fst (resume (handleDelete True ident s) (Returned ())))) = []
   \<and> filter (\<lambda>log. habit_id log = ident)
      (habitLogs (fst (resume (handleDelete True ident s) (Returned ())))) = []
   \<and> filter (\<lambda>log. habit_id log = ident)
      (allLogs (fst (resume (handleDelete True ident s) (Returned ())))) = []
   \<and> streakOf (fst (resume (handleDelete True ident s) (Returned ()))) ident = []
   \<and> \<not> isCompletedToday (fst (resume (handleDelete True ident s) (Returned ()))) ident"
  by (simp add: handleDelete_def streakOf_def isCompletedToday_def list_ex_iff filter_empty_conv)

text \<open>
  Claim C8 fails in the variant without streaks: its \<open>handleDelete\<close> filters the habits
  only. With the habit completed today, after a confirmed and successful delete the
  habit is gone, its log is still among today's logs, and \<open>isCompletedToday\<close> still
  answers true for its id.
\<close>

theorem delete_lite_keeps_todays_log:
  "habits_lite (fst (resume (handleDelete_lite True ''h1'' completedState_lite) (Returned ())))
     = []
   \<and> habitLogs_lite
       (fst (resume (handleDelete_lite True ''h1'' completedState_lite) (Returned ())))
     = [exLog ''l10'' 10]
   \<and> isCompletedToday_lite
       (fst (resume (handleDelete_lite True ''h1'' completedState_lite) (Returned ()))) ''h1''"
  by (simp add: handleDelete_lite_def isCompletedToday_lite_def ex_defs)

end
